theory Spec2Isabelle
  imports Main "HOL-Library.Sublist"
begin

section \<open>Python values and the operations the task sets apply to them\<close>

text \<open>
  The bodies the HTTP client returns are decoded by \<^verbatim>\<open>response.json()\<close>. A decoded body
  is one of Python's \<^verbatim>\<open>None\<close>, \<^verbatim>\<open>bool\<close>, \<^verbatim>\<open>int\<close>, \<^verbatim>\<open>str\<close>, \<^verbatim>\<open>list\<close> and \<^verbatim>\<open>dict\<close> (string
  keys, in insertion order, each key once). JSON numbers with a fraction decode to
  floats, which are left out of the model.
\<close>

datatype json =
    JNull
  | JBool bool
  | JNum int
  | JStr string
  | JArr "json list"
  | JObj "(string \<times> json) list"

text \<open>The exceptions that the modelled code can raise.\<close>

datatype py_error =
    JSONDecodeError
  | AttributeError
  | TypeError
  | KeyError
  | IndexError
  | LocustError

text \<open>Truth value of an object, as \<^verbatim>\<open>if x:\<close> and \<^verbatim>\<open>not x\<close> test it.\<close>

fun py_truthy :: "json \<Rightarrow> bool" where
  "py_truthy JNull = False"
| "py_truthy (JBool b) = b"
| "py_truthy (JNum n) = (n \<noteq> 0)"
| "py_truthy (JStr s) = (s \<noteq> [])"
| "py_truthy (JArr xs) = (xs \<noteq> [])"
| "py_truthy (JObj kvs) = (kvs \<noteq> [])"

text \<open>\<^verbatim>\<open>d.get(key, default)\<close>: only a dict has it.\<close>

fun dict_get :: "json \<Rightarrow> string \<Rightarrow> json \<Rightarrow> py_error + json" where
  "dict_get (JObj kvs) k d = Inr (case map_of kvs k of Some v \<Rightarrow> v | None \<Rightarrow> d)"
| "dict_get _ k d = Inl AttributeError"

text \<open>
  \<^verbatim>\<open>d[key]\<close> with a string key: a dict without the key raises \<^verbatim>\<open>KeyError\<close>, every other
  object raises \<^verbatim>\<open>TypeError\<close> (a list or a string wants an integer index, the rest is not
  subscriptable).
\<close>

fun getitem :: "json \<Rightarrow> string \<Rightarrow> py_error + json" where
  "getitem (JObj kvs) k = (case map_of kvs k of Some v \<Rightarrow> Inr v | None \<Rightarrow> Inl KeyError)"
| "getitem _ k = Inl TypeError"

text \<open>
  \<^verbatim>\<open>random.choice(seq)\<close> is \<^verbatim>\<open>seq[i]\<close> for a random \<^verbatim>\<open>i < len(seq)\<close>; the draw is the
  argument \<open>r\<close>. An object without a length raises \<^verbatim>\<open>TypeError\<close>, an empty one
  \<^verbatim>\<open>IndexError\<close>, and a dict is indexed by an integer that is none of its keys.
\<close>

fun random_choice :: "nat \<Rightarrow> json \<Rightarrow> py_error + json" where
  "random_choice r (JArr xs) =
     (if xs = [] then Inl IndexError else Inr (xs ! (r mod length xs)))"
| "random_choice r (JStr s) =
     (if s = [] then Inl IndexError else Inr (JStr [s ! (r mod length s)]))"
| "random_choice r (JObj kvs) =
     (if kvs = [] then Inl IndexError else Inl KeyError)"
| "random_choice r _ = Inl TypeError"

text \<open>\<^verbatim>\<open>random.randint(lo, hi)\<close> with \<open>lo \<le> hi\<close>, from the draw \<open>r\<close>.\<close>

definition randint :: "int \<Rightarrow> int \<Rightarrow> nat \<Rightarrow> int" where
  "randint lo hi r = lo + int r mod (hi - lo + 1)"

subsection \<open>Formatting: what an f-string puts in place of a value\<close>

definition digit_char :: "nat \<Rightarrow> char" where
  "digit_char n = ''0123456789abcdef'' ! n"

fun str_nat :: "nat \<Rightarrow> string" where
  "str_nat n = (if n < 10 then [digit_char n] else str_nat (n div 10) @ [digit_char (n mod 10)])"

declare str_nat.simps [simp del]

definition str_int :: "int \<Rightarrow> string" where
  "str_int i = (if i < 0 then CHR ''-'' # str_nat (nat (- i)) else str_nat (nat i))"

text \<open>
  \<^verbatim>\<open>repr\<close> of a string: single quotes, unless the string has a single quote and no double
  quote; the backslash, the chosen quote and the control characters are escaped. Text
  outside ASCII is taken to be printable.
\<close>

definition repr_char :: "char \<Rightarrow> char \<Rightarrow> string" where
  "repr_char q c =
     (if c = CHR 0x5C then [CHR 0x5C, CHR 0x5C]
      else if c = q then [CHR 0x5C, q]
      else if c = CHR 0x0A then [CHR 0x5C, CHR ''n'']
      else if c = CHR 0x0D then [CHR 0x5C, CHR ''r'']
      else if c = CHR 0x09 then [CHR 0x5C, CHR ''t'']
      else if of_char c < (32::nat) \<or> c = CHR 0x7F
        then [CHR 0x5C, CHR ''x'', digit_char (of_char c div 16), digit_char (of_char c mod 16)]
      else [c])"

definition repr_str :: "string \<Rightarrow> string" where
  "repr_str s =
     (let q = (if CHR 0x27 \<in> set s \<and> CHR 0x22 \<notin> set s then CHR 0x22 else CHR 0x27)
      in q # concat (map (repr_char q) s) @ [q])"

fun join :: "string \<Rightarrow> string list \<Rightarrow> string" where
  "join sep [] = []"
| "join sep [x] = x"
| "join sep (x # y # ys) = x @ sep @ join sep (y # ys)"

primrec py_repr :: "json \<Rightarrow> string" where
  "py_repr JNull = ''None''"
| "py_repr (JBool b) = (if b then ''True'' else ''False'')"
| "py_repr (JNum n) = str_int n"
| "py_repr (JStr s) = repr_str s"
| "py_repr (JArr xs) = ''['' @ join '', '' (map py_repr xs) @ '']''"
| "py_repr (JObj kvs) =
     ''{'' @ join '', '' (map (\<lambda>(k, r). repr_str k @ '': '' @ r) (map (map_prod id py_repr) kvs)) @ ''}''"

text \<open>\<^verbatim>\<open>str(x)\<close>, which \<^verbatim>\<open>f"{x}"\<close> inserts: a string as it is, anything else as its \<^verbatim>\<open>repr\<close>.\<close>

definition py_str :: "json \<Rightarrow> string" where
  "py_str v = (case v of JStr s \<Rightarrow> s | _ \<Rightarrow> py_repr v)"

section \<open>The HTTP client, the session and the record of a step\<close>

text \<open>
  A request is the argument list of one \<^verbatim>\<open>self.client.get\<close> or \<^verbatim>\<open>self.client.post\<close> call.
  The client is opaque: it maps a request to a status code and a body. A body that
  \<^verbatim>\<open>response.json()\<close> cannot decode is \<open>None\<close>.
\<close>

datatype http_method = GET | POST

record request =
  verb :: http_method
  path :: string
  params :: "(string \<times> json) list"
  headers :: "(string \<times> string) list"
  json_body :: "json option"
  name :: string

record response =
  status_code :: int
  body :: "json option"

definition response_json :: "response \<Rightarrow> py_error + json" where
  "response_json resp = (case body resp of None \<Rightarrow> Inl JSONDecodeError | Some j \<Rightarrow> Inr j)"

text \<open>
  What a step meets when it runs: the client as it answers at that moment, and the draws
  of the random generator (one for \<^verbatim>\<open>random.randint\<close>, one for \<^verbatim>\<open>random.choice\<close>; no step
  calls either twice).
\<close>

record env =
  send :: "request \<Rightarrow> response"
  rand_int :: nat
  rand_index :: nat

text \<open>
  The attributes the task sets keep between steps. \<open>None\<close> is an attribute that has not
  been assigned (\<^verbatim>\<open>hasattr\<close> is false); \<open>Some JNull\<close> is an attribute holding \<^verbatim>\<open>None\<close>.
  The readers keep \<open>article_slug\<close> on \<^verbatim>\<open>self.user\<close> and the creator keeps it on \<^verbatim>\<open>self\<close>;
  a virtual user runs one task set, so one field stands for both.
\<close>

record session =
  token :: "json option"
  username :: "string option"
  article_slug :: "json option"
  created_slug :: "json option"

text \<open>
  The calls a step makes on its response: \<^verbatim>\<open>response.success()\<close> and
  \<^verbatim>\<open>response.failure(message)\<close>. The messages are
  \<^verbatim>\<open>"Got status code {n}"\<close>, \<^verbatim>\<open>"Failed to parse response: {e}"\<close>, \<^verbatim>\<open>"Failed to parse feed"\<close> and
  \<^verbatim>\<open>"Failed to parse created article"\<close>. Inside the \<^verbatim>\<open>with\<close> block of its request, where
  every task makes them, both calls return normally.
\<close>

datatype detail =
    Got_status_code int
  | Failed_to_parse_response py_error
  | Failed_to_parse_feed
  | Failed_to_parse_created_article

datatype mark = Success | Failure detail

text \<open>
  What one execution of a step did: the request it issued, if any, and the calls it made
  on the response, in order. The pauses (\<^verbatim>\<open>time.sleep\<close>) are not recorded.
\<close>

record result =
  issued :: "request option"
  marks :: "mark list"

definition skipped :: result where
  "skipped = \<lparr>issued = None, marks = []\<rparr>"

definition performed :: "request \<Rightarrow> mark list \<Rightarrow> result" where
  "performed rq ms = \<lparr>issued = Some rq, marks = ms\<rparr>"

definition auth_header :: "json \<Rightarrow> (string \<times> string) list" where
  "auth_header t = [(''Authorization'', ''Token '' @ py_str t)]"

subsection \<open>The bodies of the try blocks\<close>

text \<open>
  \<^verbatim>\<open>data = response.json(); articles = data.get('articles', [])\<close> and, when \<^verbatim>\<open>articles\<close> is
  true, \<^verbatim>\<open>random.choice(articles).get('slug')\<close>: the value to store (\<open>Some\<close>), nothing to
  store (\<open>None\<close>), or the exception raised before any assignment.
\<close>

definition pick_slug :: "nat \<Rightarrow> response \<Rightarrow> py_error + json option" where
  "pick_slug r resp =
     (case response_json resp of
        Inl x \<Rightarrow> Inl x
      | Inr data \<Rightarrow>
          (case dict_get data ''articles'' (JArr []) of
             Inl x \<Rightarrow> Inl x
           | Inr articles \<Rightarrow>
               if py_truthy articles then
                 (case random_choice r articles of
                    Inl x \<Rightarrow> Inl x
                  | Inr a \<Rightarrow>
                      (case dict_get a ''slug'' JNull of
                         Inl x \<Rightarrow> Inl x
                       | Inr v \<Rightarrow> Inr (Some v)))
               else Inr None))"

text \<open>\<^verbatim>\<open>response.json()[outer][inner]\<close>.\<close>

definition json_field2 :: "string \<Rightarrow> string \<Rightarrow> response \<Rightarrow> py_error + json" where
  "json_field2 outer inner resp =
     (case response_json resp of
        Inl x \<Rightarrow> Inl x
      | Inr data \<Rightarrow>
          (case getitem data outer of
             Inl x \<Rightarrow> Inl x
           | Inr u \<Rightarrow> getitem u inner))"

section \<open>AnonymousReaderBehavior\<close>

definition Anonymous_view_tags_request :: request where
  "Anonymous_view_tags_request =
     \<lparr>verb = GET, path = ''/api/tags'', params = [], headers = [], json_body = None,
      name = ''GET /api/tags [Anonymous]''\<rparr>"

definition Anonymous_view_tags :: "env \<Rightarrow> session \<Rightarrow> py_error + session \<times> result" where
  "Anonymous_view_tags e s =
     (let rq = Anonymous_view_tags_request; response = send e rq in
      if status_code response = 200 then Inr (s, performed rq [Success])
      else Inr (s, performed rq [Failure (Got_status_code (status_code response))]))"

definition Anonymous_browse_articles_request :: "env \<Rightarrow> request" where
  "Anonymous_browse_articles_request e =
     \<lparr>verb = GET, path = ''/api/articles'',
      params = [(''limit'', JNum 20), (''offset'', JNum (randint 0 5 (rand_int e) * 20))],
      headers = [], json_body = None, name = ''GET /api/articles [Anonymous]''\<rparr>"

definition Anonymous_browse_articles :: "env \<Rightarrow> session \<Rightarrow> py_error + session \<times> result" where
  "Anonymous_browse_articles e s =
     (let rq = Anonymous_browse_articles_request e; response = send e rq in
      if status_code response = 200 then
        (case pick_slug (rand_index e) response of
           Inr None \<Rightarrow> Inr (s, performed rq [Success])
         | Inr (Some v) \<Rightarrow> Inr (s\<lparr>article_slug := Some v\<rparr>, performed rq [Success])
         | Inl x \<Rightarrow> Inr (s, performed rq [Failure (Failed_to_parse_response x)]))
      else Inr (s, performed rq [Failure (Got_status_code (status_code response))]))"

definition Anonymous_read_article_request :: "session \<Rightarrow> request" where
  "Anonymous_read_article_request s =
     (let slug = (case article_slug s of Some v \<Rightarrow> v | None \<Rightarrow> JStr ''sample-article'') in
      \<lparr>verb = GET, path = ''/api/articles/'' @ py_str slug, params = [], headers = [],
       json_body = None, name = ''GET /api/articles/:slug [Anonymous]''\<rparr>)"

definition Anonymous_read_article :: "env \<Rightarrow> session \<Rightarrow> py_error + session \<times> result" where
  "Anonymous_read_article e s =
     (let rq = Anonymous_read_article_request s; response = send e rq in
      if status_code response = 200 then Inr (s, performed rq [Success])
      else if status_code response = 404 then Inr (s, performed rq [Success])
      else Inr (s, performed rq [Failure (Got_status_code (status_code response))]))"

definition Anonymous_on_start :: "session \<Rightarrow> session" where
  "Anonymous_on_start s = s\<lparr>article_slug := Some JNull\<rparr>"

datatype anonymous_task = View_tags | Browse_articles | Read_article

fun Anonymous_task :: "anonymous_task \<Rightarrow> env \<Rightarrow> session \<Rightarrow> py_error + session \<times> result" where
  "Anonymous_task View_tags = Anonymous_view_tags"
| "Anonymous_task Browse_articles = Anonymous_browse_articles"
| "Anonymous_task Read_article = Anonymous_read_article"

section \<open>AuthenticatedReaderBehavior\<close>

definition register_request :: "string \<Rightarrow> string \<Rightarrow> string \<Rightarrow> request" where
  "register_request uname email password =
     \<lparr>verb = POST, path = ''/api/users'', params = [], headers = [],
      json_body = Some (JObj [(''user'', JObj [(''username'', JStr uname), (''email'', JStr email),
        (''password'', JStr password)])]),
      name = ''POST /api/users [Register]''\<rparr>"

definition login_request :: "string \<Rightarrow> string \<Rightarrow> request" where
  "login_request email password =
     \<lparr>verb = POST, path = ''/api/users/login'', params = [], headers = [],
      json_body = Some (JObj [(''user'', JObj [(''email'', JStr email), (''password'', JStr password)])]),
      name = ''POST /api/users/login''\<rparr>"

definition Reader_username :: "env \<Rightarrow> string" where
  "Reader_username e = ''reader_'' @ str_int (randint 1000 9999 (rand_int e))"

text \<open>
  \<open>login\<close> issues its requests with \<^verbatim>\<open>catch_response=True\<close> and no \<^verbatim>\<open>with\<close> block. The
  response has then not been entered, and \<^verbatim>\<open>success()\<close> of the framework raises
  \<^verbatim>\<open>LocustError\<close> instead of recording the request.
\<close>

definition success_outside_with :: "py_error + unit" where
  "success_outside_with = Inl LocustError"

text \<open>
  The \<^verbatim>\<open>try\<close> block of \<open>login\<close>:
  \<^verbatim>\<open>data = response.json(); self.token = data['user']['token']; self.username = username;\<close>
  \<^verbatim>\<open>response.success()\<close>. It gives the session it leaves and the exception that ended it, if
  any: the assignments made before the exception stay.
\<close>

definition login_try :: "string \<Rightarrow> response \<Rightarrow> session \<Rightarrow> session \<times> py_error option" where
  "login_try uname resp s =
     (case json_field2 ''user'' ''token'' resp of
        Inl x \<Rightarrow> (s, Some x)
      | Inr t \<Rightarrow>
          (let s1 = s\<lparr>token := Some t, username := Some uname\<rparr> in
           case success_outside_with of
             Inl x \<Rightarrow> (s1, Some x)
           | Inr u \<Rightarrow> (s1, None)))"

text \<open>
  The registration and the login are different requests, so one client answers both.
  \<open>fallback\<close> is the code after the first \<^verbatim>\<open>if\<close>, reached when the status is not accepted
  and when the \<^verbatim>\<open>try\<close> block raised (\<^verbatim>\<open>except: pass\<close>); the second \<^verbatim>\<open>try\<close> block has
  \<^verbatim>\<open>except: self.token = None\<close>.
\<close>

definition Reader_login :: "env \<Rightarrow> session \<Rightarrow> session \<times> result list" where
  "Reader_login e s =
     (let uname = Reader_username e;
          email = uname @ ''@loadtest.com'';
          password = ''password123'';
          rq = register_request uname email password;
          register_response = send e rq;
          lq = login_request email password;
          fallback = (\<lambda>s1.
            let login_response = send e lq in
            if status_code login_response = 200 then
              (case login_try uname login_response s1 of
                 (s2, None) \<Rightarrow> (s2, [performed rq [], performed lq [Success]])
               | (s2, Some x) \<Rightarrow>
                   (s2\<lparr>token := Some JNull\<rparr>, [performed rq [], performed lq []]))
            else (s1\<lparr>token := Some JNull\<rparr>, [performed rq [], performed lq []]))
      in
      if status_code register_response \<in> set [200, 201] then
        (case login_try uname register_response s of
           (s1, None) \<Rightarrow> (s1, [performed rq [Success]])
         | (s1, Some x) \<Rightarrow> fallback s1)
      else fallback s)"

definition Reader_on_start :: "env \<Rightarrow> session \<Rightarrow> session \<times> result list" where
  "Reader_on_start e s = Reader_login e s"

definition Reader_view_feed_request :: "json \<Rightarrow> request" where
  "Reader_view_feed_request t =
     \<lparr>verb = GET, path = ''/api/articles/feed'', params = [(''limit'', JNum 20)],
      headers = auth_header t, json_body = None, name = ''GET /api/articles/feed [Auth]''\<rparr>"

definition Reader_view_feed :: "env \<Rightarrow> session \<Rightarrow> py_error + session \<times> result" where
  "Reader_view_feed e s =
     (case token s of
        None \<Rightarrow> Inl AttributeError
      | Some t \<Rightarrow>
          if \<not> py_truthy t then Inr (s, skipped)
          else
            (let rq = Reader_view_feed_request t; response = send e rq in
             if status_code response = 200 then
               (case pick_slug (rand_index e) response of
                  Inr None \<Rightarrow> Inr (s, performed rq [Success])
                | Inr (Some v) \<Rightarrow> Inr (s\<lparr>article_slug := Some v\<rparr>, performed rq [Success])
                | Inl x \<Rightarrow> Inr (s, performed rq [Failure Failed_to_parse_feed]))
             else Inr (s, performed rq [Failure (Got_status_code (status_code response))])))"

definition Reader_read_article_request :: "json \<Rightarrow> session \<Rightarrow> request" where
  "Reader_read_article_request t s =
     (let slug = (case article_slug s of Some v \<Rightarrow> v | None \<Rightarrow> JStr ''sample-article'') in
      \<lparr>verb = GET, path = ''/api/articles/'' @ py_str slug, params = [],
       headers = auth_header t, json_body = None, name = ''GET /api/articles/:slug [Auth]''\<rparr>)"

definition Reader_read_article :: "env \<Rightarrow> session \<Rightarrow> py_error + session \<times> result" where
  "Reader_read_article e s =
     (case token s of
        None \<Rightarrow> Inl AttributeError
      | Some t \<Rightarrow>
          if \<not> py_truthy t then Inr (s, skipped)
          else
            (let rq = Reader_read_article_request t s; response = send e rq in
             if status_code response \<in> set [200, 404] then Inr (s, performed rq [Success])
             else Inr (s, performed rq [Failure (Got_status_code (status_code response))])))"

definition Reader_browse_all_articles_request :: "json \<Rightarrow> request" where
  "Reader_browse_all_articles_request t =
     \<lparr>verb = GET, path = ''/api/articles'', params = [(''limit'', JNum 20)],
      headers = auth_header t, json_body = None, name = ''GET /api/articles [Auth]''\<rparr>"

definition Reader_browse_all_articles :: "env \<Rightarrow> session \<Rightarrow> py_error + session \<times> result" where
  "Reader_browse_all_articles e s =
     (case token s of
        None \<Rightarrow> Inl AttributeError
      | Some t \<Rightarrow>
          if \<not> py_truthy t then Inr (s, skipped)
          else
            (let rq = Reader_browse_all_articles_request t; response = send e rq in
             if status_code response = 200 then Inr (s, performed rq [Success])
             else Inr (s, performed rq [Failure (Got_status_code (status_code response))])))"

definition Reader_view_profile_request :: "json \<Rightarrow> string \<Rightarrow> request" where
  "Reader_view_profile_request t uname =
     \<lparr>verb = GET, path = ''/api/profiles/'' @ uname, params = [],
      headers = auth_header t, json_body = None, name = ''GET /api/profiles/:username''\<rparr>"

definition Reader_view_profile :: "env \<Rightarrow> session \<Rightarrow> py_error + session \<times> result" where
  "Reader_view_profile e s =
     (case token s of
        None \<Rightarrow> Inl AttributeError
      | Some t \<Rightarrow>
          if \<not> py_truthy t \<or> username s = None then Inr (s, skipped)
          else
            (let rq = Reader_view_profile_request t (the (username s)); response = send e rq in
             if status_code response = 200 then Inr (s, performed rq [Success])
             else Inr (s, performed rq [Failure (Got_status_code (status_code response))])))"

datatype reader_task = View_feed | Read_article_auth | Browse_all_articles | View_profile

fun Reader_task :: "reader_task \<Rightarrow> env \<Rightarrow> session \<Rightarrow> py_error + session \<times> result" where
  "Reader_task View_feed = Reader_view_feed"
| "Reader_task Read_article_auth = Reader_read_article"
| "Reader_task Browse_all_articles = Reader_browse_all_articles"
| "Reader_task View_profile = Reader_view_profile"

section \<open>ContentCreatorBehavior\<close>

definition Creator_username :: "env \<Rightarrow> string" where
  "Creator_username e = ''creator_'' @ str_int (randint 1000 9999 (rand_int e))"

definition Creator_login :: "env \<Rightarrow> session \<Rightarrow> session \<times> result list" where
  "Creator_login e s =
     (let uname = Creator_username e;
          email = uname @ ''@loadtest.com'';
          password = ''password123'';
          rq = register_request uname email password;
          register_response = send e rq;
          fallback = (\<lambda>s1. (s1\<lparr>token := Some JNull\<rparr>, [performed rq []]))
      in
      if status_code register_response \<in> set [200, 201] then
        (case login_try uname register_response s of
           (s1, None) \<Rightarrow> (s1, [performed rq [Success]])
         | (s1, Some x) \<Rightarrow> fallback s1)
      else fallback s)"

definition Creator_on_start :: "env \<Rightarrow> session \<Rightarrow> session \<times> result list" where
  "Creator_on_start e s = Creator_login e s"

definition Creator_browse_feed_request :: "json \<Rightarrow> request" where
  "Creator_browse_feed_request t =
     \<lparr>verb = GET, path = ''/api/articles/feed'', params = [],
      headers = auth_header t, json_body = None, name = ''GET /api/articles/feed [Creator]''\<rparr>"

definition Creator_browse_feed :: "env \<Rightarrow> session \<Rightarrow> py_error + session \<times> result" where
  "Creator_browse_feed e s =
     (case token s of
        None \<Rightarrow> Inl AttributeError
      | Some t \<Rightarrow>
          if \<not> py_truthy t then Inr (s, skipped)
          else
            (let rq = Creator_browse_feed_request t; response = send e rq in
             if status_code response = 200 then
               (case pick_slug (rand_index e) response of
                  Inr None \<Rightarrow> Inr (s, performed rq [Success])
                | Inr (Some v) \<Rightarrow> Inr (s\<lparr>article_slug := Some v\<rparr>, performed rq [Success])
                | Inl x \<Rightarrow> Inr (s, performed rq [Failure Failed_to_parse_feed]))
             else Inr (s, performed rq [Failure (Got_status_code (status_code response))])))"

definition json_headers :: "json \<Rightarrow> (string \<times> string) list" where
  "json_headers t = auth_header t @ [(''Content-Type'', ''application/json'')]"

definition Creator_create_article_request :: "env \<Rightarrow> json \<Rightarrow> request" where
  "Creator_create_article_request e t =
     \<lparr>verb = POST, path = ''/api/articles'', params = [], headers = json_headers t,
      json_body = Some (JObj [(''article'', JObj
        [(''title'', JStr (''Load Test Article '' @ str_int (randint 10000 99999 (rand_int e)))),
         (''description'', JStr ''An article created during load testing''),
         (''body'', JStr (''This is the body of a test article created to simulate ''
            @ ''realistic user behavior during load testing.'')),
         (''tagList'', JArr [JStr ''testing'', JStr ''loadtest''])])]),
      name = ''POST /api/articles [Create]''\<rparr>"

definition Creator_create_article :: "env \<Rightarrow> session \<Rightarrow> py_error + session \<times> result" where
  "Creator_create_article e s =
     (case token s of
        None \<Rightarrow> Inl AttributeError
      | Some t \<Rightarrow>
          if \<not> py_truthy t then Inr (s, skipped)
          else
            (let rq = Creator_create_article_request e t; response = send e rq in
             if status_code response \<in> set [200, 201] then
               (case json_field2 ''article'' ''slug'' response of
                  Inr v \<Rightarrow> Inr (s\<lparr>created_slug := Some v\<rparr>, performed rq [Success])
                | Inl x \<Rightarrow> Inr (s, performed rq [Failure Failed_to_parse_created_article]))
             else Inr (s, performed rq [Failure (Got_status_code (status_code response))])))"

definition Creator_read_own_article_request :: "json \<Rightarrow> json \<Rightarrow> request" where
  "Creator_read_own_article_request t c =
     \<lparr>verb = GET, path = ''/api/articles/'' @ py_str c, params = [],
      headers = auth_header t, json_body = None, name = ''GET /api/articles/:slug [Own]''\<rparr>"

definition Creator_read_own_article :: "env \<Rightarrow> session \<Rightarrow> py_error + session \<times> result" where
  "Creator_read_own_article e s =
     (case token s of
        None \<Rightarrow> Inl AttributeError
      | Some t \<Rightarrow>
          if \<not> py_truthy t \<or> created_slug s = None then Inr (s, skipped)
          else
            (let rq = Creator_read_own_article_request t (the (created_slug s));
                 response = send e rq in
             if status_code response = 200 then Inr (s, performed rq [Success])
             else Inr (s, performed rq [Failure (Got_status_code (status_code response))])))"

text \<open>
  \<^verbatim>\<open>getattr(self, 'article_slug', getattr(self, 'created_slug', 'sample-article'))\<close>
\<close>

definition Creator_add_comment_request :: "env \<Rightarrow> json \<Rightarrow> session \<Rightarrow> request" where
  "Creator_add_comment_request e t s =
     (let slug =
        (case article_slug s of
           Some a \<Rightarrow> a
         | None \<Rightarrow> (case created_slug s of Some c \<Rightarrow> c | None \<Rightarrow> JStr ''sample-article''))
      in
      \<lparr>verb = POST, path = ''/api/articles/'' @ py_str slug @ ''/comments'', params = [],
       headers = json_headers t,
       json_body = Some (JObj [(''comment'', JObj
         [(''body'', JStr (''Great article! Comment from load test ''
             @ str_int (randint 1000 9999 (rand_int e))))])]),
       name = ''POST /api/articles/:slug/comments''\<rparr>)"

definition Creator_add_comment :: "env \<Rightarrow> session \<Rightarrow> py_error + session \<times> result" where
  "Creator_add_comment e s =
     (case token s of
        None \<Rightarrow> Inl AttributeError
      | Some t \<Rightarrow>
          if \<not> py_truthy t then Inr (s, skipped)
          else
            (let rq = Creator_add_comment_request e t s; response = send e rq in
             if status_code response \<in> set [200, 201] then Inr (s, performed rq [Success])
             else if status_code response = 404 then Inr (s, performed rq [Success])
             else Inr (s, performed rq [Failure (Got_status_code (status_code response))])))"

datatype creator_task = Browse_feed | Create_article | Read_own_article | Add_comment

fun Creator_task :: "creator_task \<Rightarrow> env \<Rightarrow> session \<Rightarrow> py_error + session \<times> result" where
  "Creator_task Browse_feed = Creator_browse_feed"
| "Creator_task Create_article = Creator_create_article"
| "Creator_task Read_own_article = Creator_read_own_article"
| "Creator_task Add_comment = Creator_add_comment"


section \<open>ConduitUser\<close>

text \<open>
  The user keeps the default headers of its client (\<^verbatim>\<open>self.client.headers\<close>). \<open>on_start\<close>
  has no \<^verbatim>\<open>try\<close>: what \<^verbatim>\<open>response.json()["user"]["token"]\<close> raises leaves \<open>on_start\<close>.
\<close>

definition ConduitUser_login_request :: request where
  "ConduitUser_login_request =
     \<lparr>verb = POST, path = ''/api/users/login'', params = [], headers = [],
      json_body = Some (JObj [(''user'', JObj [(''email'', JStr ''jacokyle01@gmail.com''),
        (''password'', JStr ''password'')])]),
      name = ''/api/users/login''\<rparr>"

definition ConduitUser_on_start ::
  "env \<Rightarrow> (string \<rightharpoonup> string) \<Rightarrow> py_error + (string \<rightharpoonup> string)" where
  "ConduitUser_on_start e hs =
     (let response = send e ConduitUser_login_request in
      case response_json response of
        Inl x \<Rightarrow> Inl x
      | Inr shown \<Rightarrow>
          (case json_field2 ''user'' ''token'' response of
             Inl x \<Rightarrow> Inl x
           | Inr t \<Rightarrow> Inr (hs(''Authorization'' \<mapsto> ''Token '' @ py_str t))))"

definition ConduitUser_list_articles_request :: request where
  "ConduitUser_list_articles_request =
     \<lparr>verb = GET, path = ''/api/articles'', params = [], headers = [], json_body = None,
      name = ''/api/articles''\<rparr>"

definition ConduitUser_list_articles :: "env \<Rightarrow> (string \<rightharpoonup> string) \<Rightarrow> result" where
  "ConduitUser_list_articles e hs = (let response = send e ConduitUser_list_articles_request in
     performed ConduitUser_list_articles_request [])"

section \<open>The loop of a virtual user\<close>

text \<open>
  The loop that calls the tasks is the framework's. Which task it picks next (by weight,
  at random) is left open: a schedule is the list of the tasks the loop runs, each with
  the environment it meets. \<open>run\<close> threads the session through them and keeps what each
  execution did. An exception that leaves a task ends the run with it.
\<close>

fun run ::
  "('a \<Rightarrow> env \<Rightarrow> session \<Rightarrow> py_error + session \<times> result) \<Rightarrow> ('a \<times> env) list \<Rightarrow> session
     \<Rightarrow> py_error + session \<times> ('a \<times> result) list" where
  "run step [] s = Inr (s, [])"
| "run step ((a, e) # rest) s =
     (case step a e s of
        Inl x \<Rightarrow> Inl x
      | Inr (s1, r) \<Rightarrow>
          (case run step rest s1 of
             Inl x \<Rightarrow> Inl x
           | Inr (s2, rs) \<Rightarrow> Inr (s2, (a, r) # rs)))"


text \<open>
  A virtual user: \<open>on_start\<close>, then the schedule. No code of the sources catches an
  exception that leaves \<open>on_start\<close>: it is the outcome of the user, and no task runs.
\<close>

definition Reader_user ::
  "env \<Rightarrow> (reader_task \<times> env) list \<Rightarrow> session \<Rightarrow> py_error + session \<times> (reader_task \<times> result) list" where
  "Reader_user e0 sched s = run Reader_task sched (fst (Reader_on_start e0 s))"

definition Creator_user ::
  "env \<Rightarrow> (creator_task \<times> env) list \<Rightarrow> session \<Rightarrow> py_error + session \<times> (creator_task \<times> result) list" where
  "Creator_user e0 sched s = run Creator_task sched (fst (Creator_on_start e0 s))"

definition Anonymous_user ::
  "(anonymous_task \<times> env) list \<Rightarrow> session \<Rightarrow> py_error + session \<times> (anonymous_task \<times> result) list" where
  "Anonymous_user sched s = run Anonymous_task sched (Anonymous_on_start s)"

definition ConduitUser_user ::
  "env \<Rightarrow> env list \<Rightarrow> (string \<rightharpoonup> string) \<Rightarrow> py_error + (string \<rightharpoonup> string) \<times> result list" where
  "ConduitUser_user e0 es hs =
     (case ConduitUser_on_start e0 hs of
        Inl x \<Rightarrow> Inl x
      | Inr hs' \<Rightarrow> Inr (hs', map (\<lambda>e. ConduitUser_list_articles e hs') es))"

text \<open>A session in which no attribute has been assigned.\<close>

definition empty_session :: session where
  "empty_session = \<lparr>token = None, username = None, article_slug = None, created_slug = None\<rparr>"

section \<open>Notions the properties are stated with\<close>

text \<open>The registration request each \<open>login\<close> sends, as a function of the draw.\<close>

definition Reader_register_request :: "env \<Rightarrow> request" where
  "Reader_register_request e =
     register_request (Reader_username e) (Reader_username e @ ''@loadtest.com'') ''password123''"

definition Creator_register_request :: "env \<Rightarrow> request" where
  "Creator_register_request e =
     register_request (Creator_username e) (Creator_username e @ ''@loadtest.com'') ''password123''"

definition Reader_login_request :: "env \<Rightarrow> request" where
  "Reader_login_request e = login_request (Reader_username e @ ''@loadtest.com'') ''password123''"

text \<open>
  The setup fails when the server gives no token: the answer to the registration, and for
  the reader also the answer to the login, has a status that is not accepted or a body
  without \<^verbatim>\<open>["user"]["token"]\<close>.
\<close>

definition gives_token :: "int list \<Rightarrow> response \<Rightarrow> bool" where
  "gives_token accepted resp =
     (status_code resp \<in> set accepted \<and>
      (case json_field2 ''user'' ''token'' resp of Inr t \<Rightarrow> True | Inl x \<Rightarrow> False))"

definition Reader_setup_fails :: "env \<Rightarrow> bool" where
  "Reader_setup_fails e =
     (\<not> gives_token [200, 201] (send e (Reader_register_request e)) \<and>
      \<not> gives_token [200] (send e (Reader_login_request e)))"

definition Creator_setup_fails :: "env \<Rightarrow> bool" where
  "Creator_setup_fails e = (\<not> gives_token [200, 201] (send e (Creator_register_request e)))"

text \<open>
  The outcomes one execution produces: skipped when it issued no request, and one outcome
  for each call it made on its response.
\<close>

datatype outcome = Recorded_success | Recorded_failure | Was_skipped

fun outcome_of_mark :: "mark \<Rightarrow> outcome" where
  "outcome_of_mark Success = Recorded_success"
| "outcome_of_mark (Failure d) = Recorded_failure"

definition outcomes :: "result \<Rightarrow> outcome list" where
  "outcomes r = (if issued r = None then [Was_skipped] else []) @ map outcome_of_mark (marks r)"

text \<open>
  A scheduled task of the anonymous reader stores a slug: it is \<open>browse_articles\<close>, the
  status is 200 and the body gives a value to store.
\<close>

fun populates :: "anonymous_task \<times> env \<Rightarrow> bool" where
  "populates (Browse_articles, e) =
     (status_code (send e (Anonymous_browse_articles_request e)) = 200 \<and>
      (case pick_slug (rand_index e) (send e (Anonymous_browse_articles_request e)) of
         Inr (Some v) \<Rightarrow> True
       | _ \<Rightarrow> False))"
| "populates (_, e) = False"

text \<open>An environment whose client gives the same answer to every request.\<close>

definition answering :: "int \<Rightarrow> json option \<Rightarrow> env" where
  "answering c b = \<lparr>send = (\<lambda>rq. \<lparr>status_code = c, body = b\<rparr>), rand_int = 0, rand_index = 0\<rparr>"



section \<open>Properties of the loop\<close>

lemma run_append:
  "run step (xs @ ys) s =
     (case run step xs s of
        Inl x \<Rightarrow> Inl x
      | Inr (s1, rs) \<Rightarrow>
          (case run step ys s1 of
             Inl x \<Rightarrow> Inl x
           | Inr (s2, rs') \<Rightarrow> Inr (s2, rs @ rs')))"
  by (induction xs arbitrary: s) (auto split: sum.splits prod.splits)

lemma run_all_skipped:
  assumes "\<And>a e. (a, e) \<in> set sched \<Longrightarrow> step a e s = Inr (s, skipped)"
  shows "run step sched s = Inr (s, map (\<lambda>(a, e). (a, skipped)) sched)"
  using assms by (induction sched) auto

section \<open>Setup and the steps that need the token\<close>

lemma Reader_login_token: "token (fst (Reader_login e s)) = Some JNull"
  by (simp add: Reader_login_def login_try_def success_outside_with_def Let_def
      split: sum.splits)

lemma Creator_login_token: "token (fst (Creator_login e s)) = Some JNull"
  by (simp add: Creator_login_def login_try_def success_outside_with_def Let_def
      split: sum.splits)

lemma Reader_task_skips:
  "token s = Some t \<Longrightarrow> \<not> py_truthy t \<Longrightarrow> Reader_task a e s = Inr (s, skipped)"
  by (cases a)
    (simp_all add: Reader_view_feed_def Reader_read_article_def Reader_browse_all_articles_def
      Reader_view_profile_def)

lemma Creator_task_skips:
  "token s = Some t \<Longrightarrow> \<not> py_truthy t \<Longrightarrow> Creator_task a e s = Inr (s, skipped)"
  by (cases a)
    (simp_all add: Creator_browse_feed_def Creator_create_article_def Creator_read_own_article_def
      Creator_add_comment_def)

lemma Reader_failed_setup:
  "Reader_setup_fails e \<Longrightarrow>
     Reader_on_start e s =
       (s\<lparr>token := Some JNull\<rparr>,
        [performed (Reader_register_request e) [], performed (Reader_login_request e) []])"
  by (auto simp: Reader_setup_fails_def gives_token_def Reader_on_start_def Reader_login_def
      login_try_def Reader_register_request_def Reader_login_request_def Let_def
      split: sum.splits)

lemma Creator_failed_setup:
  "Creator_setup_fails e \<Longrightarrow>
     Creator_on_start e s =
       (s\<lparr>token := Some JNull\<rparr>, [performed (Creator_register_request e) []])"
  by (auto simp: Creator_setup_fails_def gives_token_def Creator_on_start_def Creator_login_def
      login_try_def Creator_register_request_def Let_def
      split: sum.splits)

text \<open>
  Claim C3, as the spec states it, asks that a virtual user whose setup fails still runs
  its loop without raising. \<open>ConduitUser.on_start\<close> reads the token out of the login
  response with no \<^verbatim>\<open>try\<close>: a login refused with status 422 and an \<^verbatim>\<open>errors\<close> body raises
  \<^verbatim>\<open>KeyError\<close> out of \<open>on_start\<close>, and the user ends there.
\<close>

theorem ConduitUser_setup_failure_raises:
  "ConduitUser_on_start
     (answering 422 (Some (JObj [(''errors'', JObj [(''body'', JArr [JStr ''invalid''])])])))
     Map.empty = Inl KeyError \<and>
   ConduitUser_user
     (answering 422 (Some (JObj [(''errors'', JObj [(''body'', JArr [JStr ''invalid''])])])))
     [answering 200 (Some (JObj [(''articles'', JArr [])]))] Map.empty = Inl KeyError"
  by (simp add: ConduitUser_user_def ConduitUser_on_start_def answering_def response_json_def
      json_field2_def)

text \<open>
  Claim C3, amended: in the authenticated reader and in the content creator, when the
  setup fails (the server gives no token to the registration, nor, for the reader, to the
  login), \<open>on_start\<close> returns normally and leaves the token \<^verbatim>\<open>None\<close>; the loop then runs, and
  every task of every schedule returns without a request and without a call on a
  response, the session staying as \<open>on_start\<close> left it.
\<close>

theorem setup_failure_skips:
  "(Reader_setup_fails e0 \<longrightarrow>
      Reader_on_start e0 s =
        (s\<lparr>token := Some JNull\<rparr>,
         [performed (Reader_register_request e0) [], performed (Reader_login_request e0) []]) \<and>
      Reader_user e0 sched s =
        Inr (s\<lparr>token := Some JNull\<rparr>, map (\<lambda>(a, e). (a, skipped)) sched)) \<and>
   (Creator_setup_fails e0 \<longrightarrow>
      Creator_on_start e0 s =
        (s\<lparr>token := Some JNull\<rparr>, [performed (Creator_register_request e0) []]) \<and>
      Creator_user e0 sched' s =
        Inr (s\<lparr>token := Some JNull\<rparr>, map (\<lambda>(a, e). (a, skipped)) sched'))"
proof (intro conjI impI)
  assume f: "Reader_setup_fails e0"
  show r: "Reader_on_start e0 s =
        (s\<lparr>token := Some JNull\<rparr>,
         [performed (Reader_register_request e0) [], performed (Reader_login_request e0) []])"
    by (rule Reader_failed_setup [OF f])
  show "Reader_user e0 sched s =
        Inr (s\<lparr>token := Some JNull\<rparr>, map (\<lambda>(a, e). (a, skipped)) sched)"
    unfolding Reader_user_def r
    by (simp add: run_all_skipped Reader_task_skips)
next
  assume f: "Creator_setup_fails e0"
  show c: "Creator_on_start e0 s =
        (s\<lparr>token := Some JNull\<rparr>, [performed (Creator_register_request e0) []])"
    by (rule Creator_failed_setup [OF f])
  show "Creator_user e0 sched' s =
        Inr (s\<lparr>token := Some JNull\<rparr>, map (\<lambda>(a, e). (a, skipped)) sched')"
    unfolding Creator_user_def c
    by (simp add: run_all_skipped Creator_task_skips)
qed

theorem setup_failure_skips_witness:
  "Reader_setup_fails (answering 500 None) \<and>
   Reader_user (answering 500 None)
     [(View_feed, answering 200 None), (Read_article_auth, answering 404 None),
      (Browse_all_articles, answering 200 None), (View_profile, answering 200 None)]
     empty_session =
     Inr (empty_session\<lparr>token := Some JNull\<rparr>,
       [(View_feed, skipped), (Read_article_auth, skipped), (Browse_all_articles, skipped),
        (View_profile, skipped)]) \<and>
   Creator_setup_fails (answering 201 None) \<and>
   Creator_user (answering 201 None)
     [(Browse_feed, answering 200 None), (Create_article, answering 201 None),
      (Read_own_article, answering 200 None), (Add_comment, answering 200 None)]
     empty_session =
     Inr (empty_session\<lparr>token := Some JNull\<rparr>,
       [(Browse_feed, skipped), (Create_article, skipped), (Read_own_article, skipped),
        (Add_comment, skipped)])"
proof -
  have r: "Reader_setup_fails (answering 500 None)"
    by (simp add: Reader_setup_fails_def gives_token_def answering_def)
  have c: "Creator_setup_fails (answering 201 None)"
    by (simp add: Creator_setup_fails_def gives_token_def answering_def json_field2_def
        response_json_def)
  show ?thesis
    using r c
      setup_failure_skips [of "answering 500 None" empty_session
        "[(View_feed, answering 200 None), (Read_article_auth, answering 404 None),
          (Browse_all_articles, answering 200 None), (View_profile, answering 200 None)]"]
      setup_failure_skips [of "answering 201 None" empty_session _
        "[(Browse_feed, answering 200 None), (Create_article, answering 201 None),
          (Read_own_article, answering 200 None), (Add_comment, answering 200 None)]"]
    by simp
qed

section \<open>The anonymous reader and the placeholder slug\<close>

lemma Anonymous_task_keeps_presence:
  "article_slug s \<noteq> None \<Longrightarrow>
     \<exists>s' r. Anonymous_task a e s = Inr (s', r) \<and> article_slug s' \<noteq> None"
  by (cases a)
    (auto simp: Anonymous_view_tags_def Anonymous_browse_articles_def Anonymous_read_article_def
      Let_def split: sum.splits option.splits)

lemma run_Anonymous_presence:
  "article_slug s \<noteq> None \<Longrightarrow>
     \<exists>s' rs. run Anonymous_task sched s = Inr (s', rs) \<and> article_slug s' \<noteq> None"
proof (induction sched arbitrary: s)
  case Nil
  then show ?case by simp
next
  case (Cons x sched)
  obtain a e where x: "x = (a, e)" by (cases x)
  from Anonymous_task_keeps_presence [OF Cons.prems, of a e]
  obtain s1 r where 1: "Anonymous_task a e s = Inr (s1, r)" "article_slug s1 \<noteq> None" by blast
  from Cons.IH [OF 1(2)] obtain s2 rs where "run Anonymous_task sched s1 = Inr (s2, rs)"
    "article_slug s2 \<noteq> None" by blast
  with 1 x show ?case by simp
qed

lemma Anonymous_task_unpopulated:
  "\<not> populates (a, e) \<Longrightarrow> \<exists>r. Anonymous_task a e s = Inr (s, r)"
  by (cases a)
    (auto simp: Anonymous_view_tags_def Anonymous_browse_articles_def Anonymous_read_article_def
      Let_def split: sum.splits option.splits)

lemma run_Anonymous_unpopulated:
  "\<forall>x \<in> set sched. \<not> populates x \<Longrightarrow> \<exists>rs. run Anonymous_task sched s = Inr (s, rs)"
proof (induction sched)
  case Nil
  then show ?case by simp
next
  case (Cons x sched)
  obtain a e where x: "x = (a, e)" by (cases x)
  with Cons.prems have "\<not> populates (a, e)" by simp
  from Anonymous_task_unpopulated [OF this, of s]
  obtain r where 1: "Anonymous_task a e s = Inr (s, r)" by blast
  from Cons obtain rs where "run Anonymous_task sched s = Inr (s, rs)" by auto
  with 1 x show ?case by simp
qed

text \<open>
  Claim C1: with no slug discovered yet, the read step uses the placeholder and the path
  requested contains it. The code of the anonymous reader does not do that: \<open>on_start\<close>
  assigns \<^verbatim>\<open>None\<close> to \<open>article_slug\<close>, the \<^verbatim>\<open>hasattr\<close> test of \<open>read_article\<close> is then true and the
  branch marked \<^verbatim>\<open># Fallback\<close> is not taken. A user that starts and runs \<open>read_article\<close>
  first, the client answering 404, requests \<^verbatim>\<open>/api/articles/None\<close>, which contains neither
  the spec's \<^verbatim>\<open>sample-item\<close> nor the code's \<^verbatim>\<open>sample-article\<close>; the 404 is marked as a success.
\<close>

theorem Anonymous_first_read_path:
  "Anonymous_user [(Read_article, answering 404 None)] empty_session =
     Inr (empty_session\<lparr>article_slug := Some JNull\<rparr>,
       [(Read_article, performed
          \<lparr>verb = GET, path = ''/api/articles/None'', params = [], headers = [],
           json_body = None, name = ''GET /api/articles/:slug [Anonymous]''\<rparr> [Success])]) \<and>
   \<not> sublist ''sample-item'' ''/api/articles/None'' \<and>
   \<not> sublist ''sample-article'' ''/api/articles/None''"
proof -
  have "\<not> sublist ''sample-item'' ''/api/articles/None''"
    "\<not> sublist ''sample-article'' ''/api/articles/None''" by code_simp+
  then show ?thesis
    by (simp add: Anonymous_user_def Anonymous_on_start_def Anonymous_read_article_def
      Anonymous_read_article_request_def answering_def empty_session_def py_str_def)
qed

text \<open>
  Claim C9: \<open>on_start\<close> of the anonymous reader assigns \<^verbatim>\<open>None\<close> to \<open>article_slug\<close>, so
  after any schedule the attribute is present and \<open>read_article\<close> never takes the fallback;
  and as long as no scheduled task has stored a slug, the session is still the one
  \<open>on_start\<close> left and a \<open>read_article\<close> that follows requests \<^verbatim>\<open>/api/articles/None\<close>.
\<close>

theorem Anonymous_read_before_populated:
  "(\<exists>s' rs. Anonymous_user sched' s = Inr (s', rs) \<and> article_slug s' \<noteq> None) \<and>
   ((\<forall>x \<in> set sched. \<not> populates x) \<longrightarrow>
    (\<exists>rs r. Anonymous_user (sched @ [(Read_article, e)]) s
        = Inr (Anonymous_on_start s, rs @ [(Read_article, r)]) \<and>
      map_option path (issued r) = Some ''/api/articles/None''))"
proof (intro conjI impI)
  show "\<exists>s' rs. Anonymous_user sched' s = Inr (s', rs) \<and> article_slug s' \<noteq> None"
    unfolding Anonymous_user_def
    by (rule run_Anonymous_presence) (simp add: Anonymous_on_start_def)
next
  assume "\<forall>x \<in> set sched. \<not> populates x"
  from run_Anonymous_unpopulated [OF this, of "Anonymous_on_start s"]
  obtain rs where
    rs: "run Anonymous_task sched (Anonymous_on_start s) = Inr (Anonymous_on_start s, rs)"
    by blast
  have "\<exists>r. Anonymous_read_article e (Anonymous_on_start s) = Inr (Anonymous_on_start s, r) \<and>
      map_option path (issued r) = Some ''/api/articles/None''"
    by (simp add: Anonymous_read_article_def Anonymous_read_article_request_def
        Anonymous_on_start_def Let_def performed_def py_str_def)
  then obtain r where
    r: "Anonymous_read_article e (Anonymous_on_start s) = Inr (Anonymous_on_start s, r)"
    "map_option path (issued r) = Some ''/api/articles/None''" by blast
  have "Anonymous_user (sched @ [(Read_article, e)]) s
      = Inr (Anonymous_on_start s, rs @ [(Read_article, r)])"
    by (simp add: Anonymous_user_def run_append rs r(1))
  with r(2) show "\<exists>rs r. Anonymous_user (sched @ [(Read_article, e)]) s
        = Inr (Anonymous_on_start s, rs @ [(Read_article, r)]) \<and>
      map_option path (issued r) = Some ''/api/articles/None''" by blast
qed

theorem Anonymous_read_before_populated_witness:
  "\<not> populates (View_tags, answering 200 None) \<and>
   \<not> populates (Browse_articles, answering 200 (Some (JObj [(''articles'', JArr [])]))) \<and>
   \<not> populates (Browse_articles, answering 503 None) \<and>
   (\<exists>rs r. Anonymous_user
        ([(View_tags, answering 200 None),
          (Browse_articles, answering 200 (Some (JObj [(''articles'', JArr [])]))),
          (Browse_articles, answering 503 None)] @ [(Read_article, answering 404 None)])
        empty_session
      = Inr (Anonymous_on_start empty_session, rs @ [(Read_article, r)]) \<and>
      map_option path (issued r) = Some ''/api/articles/None'')"
proof -
  have h: "\<not> populates (View_tags, answering 200 None)"
    "\<not> populates (Browse_articles, answering 200 (Some (JObj [(''articles'', JArr [])])))"
    "\<not> populates (Browse_articles, answering 503 None)"
    by (simp_all add: answering_def pick_slug_def response_json_def)
  with Anonymous_read_before_populated
    [of "[]" empty_session
      "[(View_tags, answering 200 None),
        (Browse_articles, answering 200 (Some (JObj [(''articles'', JArr [])]))),
        (Browse_articles, answering 503 None)]" "answering 404 None"]
  show ?thesis by simp
qed

section \<open>The sequential workflow of the content creator\<close>








section \<open>What a task records\<close>

lemma outcomes_performed: "outcomes (performed rq [m]) = [outcome_of_mark m]"
  by (simp add: outcomes_def performed_def)

lemma outcomes_skipped: "outcomes skipped = [Was_skipped]"
  by (simp add: outcomes_def skipped_def)

lemma Anonymous_task_one_outcome:
  "\<exists>s' r out. Anonymous_task a e s = Inr (s', r) \<and> outcomes r = [out]"
  by (cases a)
    (simp_all add: Anonymous_view_tags_def Anonymous_browse_articles_def Anonymous_read_article_def
      Let_def outcomes_performed outcomes_skipped split: sum.splits option.splits)

lemma Reader_task_one_outcome:
  "token s \<noteq> None \<Longrightarrow> \<exists>s' r out. Reader_task a e s = Inr (s', r) \<and> outcomes r = [out]"
  by (cases a)
    (auto simp: Reader_view_feed_def Reader_read_article_def Reader_browse_all_articles_def
      Reader_view_profile_def
      Let_def outcomes_performed outcomes_skipped split: sum.splits option.splits)

lemma Creator_task_one_outcome:
  "token s \<noteq> None \<Longrightarrow> \<exists>s' r out. Creator_task a e s = Inr (s', r) \<and> outcomes r = [out]"
  by (cases a)
    (auto simp: Creator_browse_feed_def Creator_create_article_def Creator_read_own_article_def
      Creator_add_comment_def
      Let_def outcomes_performed outcomes_skipped split: sum.splits option.splits)

text \<open>
  Claim C5: every execution of a task of the three task sets returns and produces exactly
  one outcome: it is skipped (no request, no call on a response), or it issues one request
  and makes one call on the response, \<open>success\<close> or \<open>failure\<close>, never both. The tasks of the
  reader and of the creator read the token attribute, which \<open>on_start\<close> has assigned.
\<close>

theorem one_outcome_per_execution:
  "(\<exists>s' r out. Anonymous_task a e s = Inr (s', r) \<and> outcomes r = [out]) \<and>
   (token s \<noteq> None \<longrightarrow>
      (\<exists>s' r out. Reader_task b e s = Inr (s', r) \<and> outcomes r = [out]) \<and>
      (\<exists>s' r out. Creator_task c e s = Inr (s', r) \<and> outcomes r = [out]))"
  using Anonymous_task_one_outcome Reader_task_one_outcome Creator_task_one_outcome by blast

theorem one_outcome_per_execution_witness:
  "token (empty_session\<lparr>token := Some (JStr ''abc123'')\<rparr>) \<noteq> None \<and>
   (\<exists>s' r out. Anonymous_task Browse_articles (answering 200 None)
        (empty_session\<lparr>token := Some (JStr ''abc123'')\<rparr>) = Inr (s', r) \<and> outcomes r = [out]) \<and>
   (\<exists>s' r out. Reader_task Read_article_auth (answering 200 None)
        (empty_session\<lparr>token := Some (JStr ''abc123'')\<rparr>) = Inr (s', r) \<and> outcomes r = [out]) \<and>
   (\<exists>s' r out. Creator_task Create_article (answering 200 None)
        (empty_session\<lparr>token := Some (JStr ''abc123'')\<rparr>) = Inr (s', r) \<and> outcomes r = [out])"
  using one_outcome_per_execution
    [of Browse_articles "answering 200 None" "empty_session\<lparr>token := Some (JStr ''abc123'')\<rparr>"
      Read_article_auth Create_article]
  by (simp add: empty_session_def)

text \<open>
  Claim C4: when the status is accepted and the \<^verbatim>\<open>try\<close> block of a task that reads the body
  raises (the body is not JSON, is not an object, holds something else than objects in
  its list, lacks a key that is subscripted), the task returns normally, marks the
  response as a failure with its parse message, and leaves the session as it was.
\<close>

theorem parse_failure_keeps_session:
  "(status_code (send e (Anonymous_browse_articles_request e)) = 200 \<and>
    pick_slug (rand_index e) (send e (Anonymous_browse_articles_request e)) = Inl x \<longrightarrow>
      Anonymous_browse_articles e s =
        Inr (s, performed (Anonymous_browse_articles_request e)
                  [Failure (Failed_to_parse_response x)])) \<and>
   (token s = Some t \<and> py_truthy t \<and>
    status_code (send e (Reader_view_feed_request t)) = 200 \<and>
    pick_slug (rand_index e) (send e (Reader_view_feed_request t)) = Inl x \<longrightarrow>
      Reader_view_feed e s =
        Inr (s, performed (Reader_view_feed_request t) [Failure Failed_to_parse_feed])) \<and>
   (token s = Some t \<and> py_truthy t \<and>
    status_code (send e (Creator_browse_feed_request t)) = 200 \<and>
    pick_slug (rand_index e) (send e (Creator_browse_feed_request t)) = Inl x \<longrightarrow>
      Creator_browse_feed e s =
        Inr (s, performed (Creator_browse_feed_request t) [Failure Failed_to_parse_feed])) \<and>
   (token s = Some t \<and> py_truthy t \<and>
    status_code (send e (Creator_create_article_request e t)) \<in> {200, 201} \<and>
    json_field2 ''article'' ''slug'' (send e (Creator_create_article_request e t)) = Inl x \<longrightarrow>
      Creator_create_article e s =
        Inr (s, performed (Creator_create_article_request e t)
                  [Failure Failed_to_parse_created_article]))"
  by (auto simp: Anonymous_browse_articles_def Reader_view_feed_def Creator_browse_feed_def
      Creator_create_article_def Let_def)

theorem parse_failure_keeps_session_witness:
  "pick_slug 0 \<lparr>status_code = 200, body = None\<rparr> = Inl JSONDecodeError \<and>
   json_field2 ''article'' ''slug'' \<lparr>status_code = 200, body = None\<rparr> = Inl JSONDecodeError \<and>
   py_truthy (JStr ''abc123'') \<and>
   Anonymous_browse_articles (answering 200 None) (empty_session\<lparr>token := Some (JStr ''abc123'')\<rparr>) =
     Inr (empty_session\<lparr>token := Some (JStr ''abc123'')\<rparr>,
       performed (Anonymous_browse_articles_request (answering 200 None))
         [Failure (Failed_to_parse_response JSONDecodeError)]) \<and>
   Reader_view_feed (answering 200 None) (empty_session\<lparr>token := Some (JStr ''abc123'')\<rparr>) =
     Inr (empty_session\<lparr>token := Some (JStr ''abc123'')\<rparr>,
       performed (Reader_view_feed_request (JStr ''abc123'')) [Failure Failed_to_parse_feed]) \<and>
   Creator_browse_feed (answering 200 None) (empty_session\<lparr>token := Some (JStr ''abc123'')\<rparr>) =
     Inr (empty_session\<lparr>token := Some (JStr ''abc123'')\<rparr>,
       performed (Creator_browse_feed_request (JStr ''abc123'')) [Failure Failed_to_parse_feed]) \<and>
   Creator_create_article (answering 200 None) (empty_session\<lparr>token := Some (JStr ''abc123'')\<rparr>) =
     Inr (empty_session\<lparr>token := Some (JStr ''abc123'')\<rparr>,
       performed (Creator_create_article_request (answering 200 None) (JStr ''abc123''))
         [Failure Failed_to_parse_created_article])"
proof -
  have h: "pick_slug 0 \<lparr>status_code = 200, body = None\<rparr> = Inl JSONDecodeError"
    "json_field2 ''article'' ''slug'' \<lparr>status_code = 200, body = None\<rparr> = Inl JSONDecodeError"
    by (simp_all add: pick_slug_def json_field2_def response_json_def)
  with parse_failure_keeps_session
    [of "answering 200 None" JSONDecodeError "empty_session\<lparr>token := Some (JStr ''abc123'')\<rparr>"
      "JStr ''abc123''"]
  show ?thesis by (simp add: answering_def empty_session_def)
qed

text \<open>
  Claim C10: a 404 answer is marked as a success by \<open>read_article\<close> of the anonymous and of
  the authenticated reader and by \<open>add_comment\<close>, and as a failure by \<open>read_own_article\<close>.
\<close>

theorem not_found_allow_list:
  "(status_code (send e (Anonymous_read_article_request s)) = 404 \<longrightarrow>
      Anonymous_read_article e s =
        Inr (s, performed (Anonymous_read_article_request s) [Success])) \<and>
   (token s = Some t \<and> py_truthy t \<and>
    status_code (send e (Reader_read_article_request t s)) = 404 \<longrightarrow>
      Reader_read_article e s =
        Inr (s, performed (Reader_read_article_request t s) [Success])) \<and>
   (token s = Some t \<and> py_truthy t \<and>
    status_code (send e (Creator_add_comment_request e t s)) = 404 \<longrightarrow>
      Creator_add_comment e s =
        Inr (s, performed (Creator_add_comment_request e t s) [Success])) \<and>
   (token s = Some t \<and> py_truthy t \<and> created_slug s = Some c \<and>
    status_code (send e (Creator_read_own_article_request t c)) = 404 \<longrightarrow>
      Creator_read_own_article e s =
        Inr (s, performed (Creator_read_own_article_request t c)
                  [Failure (Got_status_code 404)]))"
  by (simp add: Anonymous_read_article_def Reader_read_article_def Creator_add_comment_def
      Creator_read_own_article_def Let_def)

theorem not_found_allow_list_witness:
  "py_truthy (JStr ''abc123'') \<and>
   Anonymous_read_article (answering 404 None)
       (empty_session\<lparr>token := Some (JStr ''abc123''), created_slug := Some (JStr ''xyz'')\<rparr>) =
     Inr (empty_session\<lparr>token := Some (JStr ''abc123''), created_slug := Some (JStr ''xyz'')\<rparr>,
       performed (Anonymous_read_article_request
         (empty_session\<lparr>token := Some (JStr ''abc123''), created_slug := Some (JStr ''xyz'')\<rparr>))
         [Success]) \<and>
   Reader_read_article (answering 404 None)
       (empty_session\<lparr>token := Some (JStr ''abc123''), created_slug := Some (JStr ''xyz'')\<rparr>) =
     Inr (empty_session\<lparr>token := Some (JStr ''abc123''), created_slug := Some (JStr ''xyz'')\<rparr>,
       performed (Reader_read_article_request (JStr ''abc123'')
         (empty_session\<lparr>token := Some (JStr ''abc123''), created_slug := Some (JStr ''xyz'')\<rparr>))
         [Success]) \<and>
   Creator_add_comment (answering 404 None)
       (empty_session\<lparr>token := Some (JStr ''abc123''), created_slug := Some (JStr ''xyz'')\<rparr>) =
     Inr (empty_session\<lparr>token := Some (JStr ''abc123''), created_slug := Some (JStr ''xyz'')\<rparr>,
       performed (Creator_add_comment_request (answering 404 None) (JStr ''abc123'')
         (empty_session\<lparr>token := Some (JStr ''abc123''), created_slug := Some (JStr ''xyz'')\<rparr>))
         [Success]) \<and>
   Creator_read_own_article (answering 404 None)
       (empty_session\<lparr>token := Some (JStr ''abc123''), created_slug := Some (JStr ''xyz'')\<rparr>) =
     Inr (empty_session\<lparr>token := Some (JStr ''abc123''), created_slug := Some (JStr ''xyz'')\<rparr>,
       performed (Creator_read_own_article_request (JStr ''abc123'') (JStr ''xyz''))
         [Failure (Got_status_code 404)])"
  using not_found_allow_list
    [of "answering 404 None"
      "empty_session\<lparr>token := Some (JStr ''abc123''), created_slug := Some (JStr ''xyz'')\<rparr>"
      "JStr ''abc123''" "JStr ''xyz''"]
  by (simp add: answering_def empty_session_def)

section \<open>Registration\<close>

text \<open>
  Claim C8: after a registration answered with the body \<^verbatim>\<open>{"user":{"token":"abc123"}}\<close> the
  token is \<^verbatim>\<open>abc123\<close>. Both \<open>login\<close> functions assign it and then call \<^verbatim>\<open>success()\<close> outside a
  \<^verbatim>\<open>with\<close> block; the call raises, the bare \<^verbatim>\<open>except\<close> catches it, and the code that follows
  ends with \<^verbatim>\<open>self.token = None\<close>: in the creator at once, in the reader after a login that
  meets the same fate. No response is marked.
\<close>

theorem registration_token_lost:
  "Reader_login (answering 200 (Some (JObj [(''user'', JObj [(''token'', JStr ''abc123'')])])))
      empty_session =
     (empty_session\<lparr>token := Some JNull, username := Some ''reader_1000''\<rparr>,
      [performed (Reader_register_request
          (answering 200 (Some (JObj [(''user'', JObj [(''token'', JStr ''abc123'')])])))) [],
       performed (Reader_login_request
          (answering 200 (Some (JObj [(''user'', JObj [(''token'', JStr ''abc123'')])])))) []]) \<and>
   Creator_login (answering 201 (Some (JObj [(''user'', JObj [(''token'', JStr ''abc123'')])])))
      empty_session =
     (empty_session\<lparr>token := Some JNull, username := Some ''creator_1000''\<rparr>,
      [performed (Creator_register_request
          (answering 201 (Some (JObj [(''user'', JObj [(''token'', JStr ''abc123'')])])))) []])"
proof -
  have u: "str_int (randint 1000 9999 0) = ''1000''"
    by (simp add: randint_def str_int_def str_nat.simps digit_char_def)
  show ?thesis
    by (simp add: Reader_login_def Creator_login_def login_try_def success_outside_with_def
        Reader_register_request_def Creator_register_request_def Reader_login_request_def
        Reader_username_def Creator_username_def
        answering_def empty_session_def json_field2_def response_json_def Let_def u)
qed

end
